theory Spec2Isabelle
  imports Main
begin

section \<open>Interval timer service (PomodoroService)\<close>

text \<open>
  The service keeps one mutable \<open>state\<close> object, a handle \<open>timerInterval\<close> of the
  one-second scheduler (here: whether an interval is installed) and publishes on the
  event bus. Numbers are modelled as integers. Every published event is appended to
  \<open>published\<close>; subscribers are taken to return and not to call the service from
  inside a publish (the themes of this repository call it from a later timeout, which
  is a later step here). \<open>getState()\<close> copies the state, so an event carries the
  state as it was when the event was published.
\<close>

record timer_state =
  isActive :: bool
  isBreak :: bool
  timeRemaining :: int
  workTime :: int
  breakTime :: int
  workProjectId :: "string option"
  breakProjectId :: "string option"
  projectTaskMemory :: "(string \<times> int) list"

text \<open>What \<open>settingsService.getPomodoroSettings()\<close> hands out; an absent field is \<open>None\<close>.\<close>

record pomodoro_settings =
  cfg_workTime :: "int option"
  cfg_breakTime :: "int option"
  cfg_workProjectId :: "string option"
  cfg_breakProjectId :: "string option"
  cfg_projectTaskMemory :: "(string \<times> int) list option"

datatype pomodoro_event =
    TIMER_STARTED timer_state
  | TIMER_PAUSED timer_state
  | TIMER_RESET timer_state
  | TIMER_TICK timer_state
  | TIMER_COMPLETED bool string
  | WORK_STARTED timer_state
  | BREAK_STARTED timer_state
  | POMODORO_SETTINGS_CHANGED timer_state
  | STORE_SETTINGS_CHANGED string

record pomodoro_service =
  state :: timer_state
  timerInterval :: bool
  stored :: pomodoro_settings
  published :: "pomodoro_event list"

definition pomodoro_publish :: "pomodoro_event \<Rightarrow> pomodoro_service \<Rightarrow> pomodoro_service" where
  "pomodoro_publish e s = s\<lparr>published := published s @ [e]\<rparr>"

definition getState :: "pomodoro_service \<Rightarrow> timer_state" where
  "getState s = state s"

text \<open>JavaScript's \<open>x || d\<close> on a number that may be absent: absent and \<open>0\<close> are falsy.\<close>

definition num_or :: "int option \<Rightarrow> int \<Rightarrow> int" where
  "num_or x d = (case x of None \<Rightarrow> d | Some v \<Rightarrow> if v = 0 then d else v)"

definition str_or_null :: "string option \<Rightarrow> string option" where
  "str_or_null x = (case x of None \<Rightarrow> None | Some v \<Rightarrow> if v = [] then None else Some v)"

definition loadSettings :: "pomodoro_settings \<Rightarrow> pomodoro_service \<Rightarrow> pomodoro_service" where
  "loadSettings cfg s =
     (let st1 = (state s)\<lparr>
            workTime := num_or (cfg_workTime cfg) 25,
            breakTime := num_or (cfg_breakTime cfg) 5,
            workProjectId := str_or_null (cfg_workProjectId cfg),
            breakProjectId := str_or_null (cfg_breakProjectId cfg),
            projectTaskMemory := (case cfg_projectTaskMemory cfg of None \<Rightarrow> [] | Some m \<Rightarrow> m)\<rparr>;
          st2 = st1\<lparr>timeRemaining :=
            (if isBreak st1 then breakTime st1 * 60 else workTime st1 * 60)\<rparr>
      in s\<lparr>state := st2\<rparr>)"

text \<open>The constructor: default state, no interval, then \<open>loadSettings()\<close>.\<close>

definition PomodoroService :: "pomodoro_settings \<Rightarrow> pomodoro_service" where
  "PomodoroService cfg =
     loadSettings cfg
       \<lparr>state = \<lparr>isActive = False, isBreak = False, timeRemaining = 0,
                 workTime = 25, breakTime = 5,
                 workProjectId = None, breakProjectId = None, projectTaskMemory = []\<rparr>,
        timerInterval = False,
        stored = cfg,
        published = []\<rparr>"

definition saveSettings :: "pomodoro_service \<Rightarrow> pomodoro_service" where
  "saveSettings s =
     pomodoro_publish (STORE_SETTINGS_CHANGED ''pomodoro'')
       (s\<lparr>stored := \<lparr>cfg_workTime = Some (workTime (state s)),
                      cfg_breakTime = Some (breakTime (state s)),
                      cfg_workProjectId = workProjectId (state s),
                      cfg_breakProjectId = breakProjectId (state s),
                      cfg_projectTaskMemory = Some (projectTaskMemory (state s))\<rparr>\<rparr>)"

definition start :: "pomodoro_service \<Rightarrow> pomodoro_service" where
  "start s =
     (if isActive (state s) then s
      else let s1 = s\<lparr>state := (state s)\<lparr>isActive := True\<rparr>\<rparr>;
               s2 = s1\<lparr>timerInterval := True\<rparr>
           in pomodoro_publish (TIMER_STARTED (getState s2)) s2)"

definition pause :: "pomodoro_service \<Rightarrow> pomodoro_service" where
  "pause s =
     (if \<not> isActive (state s) then s
      else let s1 = s\<lparr>state := (state s)\<lparr>isActive := False\<rparr>\<rparr>;
               s2 = (if timerInterval s1 then s1\<lparr>timerInterval := False\<rparr> else s1)
           in pomodoro_publish (TIMER_PAUSED (getState s2)) s2)"

definition reset :: "pomodoro_service \<Rightarrow> pomodoro_service" where
  "reset s =
     (let s1 = (if timerInterval s then s\<lparr>timerInterval := False\<rparr> else s);
          s2 = s1\<lparr>state := (state s1)\<lparr>isActive := False\<rparr>\<rparr>;
          s3 = s2\<lparr>state := (state s2)\<lparr>isBreak := False\<rparr>\<rparr>;
          s4 = s3\<lparr>state := (state s3)\<lparr>timeRemaining := workTime (state s3) * 60\<rparr>\<rparr>
      in pomodoro_publish (TIMER_RESET (getState s4)) s4)"

definition toggle :: "pomodoro_service \<Rightarrow> pomodoro_service" where
  "toggle s = (if isActive (state s) then pause s else start s)"

definition setWorkTime :: "int \<Rightarrow> pomodoro_service \<Rightarrow> pomodoro_service" where
  "setWorkTime minutes s =
     (if minutes < 1 \<or> minutes > 60 then s
      else let s1 = s\<lparr>state := (state s)\<lparr>workTime := minutes\<rparr>\<rparr>;
               s2 = (if \<not> isBreak (state s1) \<and> \<not> isActive (state s1)
                     then s1\<lparr>state := (state s1)\<lparr>timeRemaining := minutes * 60\<rparr>\<rparr>
                     else s1);
               s3 = saveSettings s2
           in pomodoro_publish (POMODORO_SETTINGS_CHANGED (getState s3)) s3)"

definition setBreakTime :: "int \<Rightarrow> pomodoro_service \<Rightarrow> pomodoro_service" where
  "setBreakTime minutes s =
     (if minutes < 1 \<or> minutes > 60 then s
      else let s1 = s\<lparr>state := (state s)\<lparr>breakTime := minutes\<rparr>\<rparr>;
               s2 = (if isBreak (state s1) \<and> \<not> isActive (state s1)
                     then s1\<lparr>state := (state s1)\<lparr>timeRemaining := minutes * 60\<rparr>\<rparr>
                     else s1);
               s3 = saveSettings s2
           in pomodoro_publish (POMODORO_SETTINGS_CHANGED (getState s3)) s3)"

definition nextMode :: "bool \<Rightarrow> string" where
  "nextMode wasBreak = (if \<not> wasBreak then ''break'' else ''work'')"

text \<open>
  Toggle the phase, reload the countdown from the minutes of the phase entered and
  publish the event of that phase: the common tail of \<open>_handleTimerComplete\<close> and
  \<open>startNextPhase\<close>, each of which then calls \<open>start()\<close>.
\<close>

definition enterOtherPhase :: "pomodoro_service \<Rightarrow> pomodoro_service" where
  "enterOtherPhase s =
     (let s1 = s\<lparr>state := (state s)\<lparr>isBreak := \<not> isBreak (state s)\<rparr>\<rparr>;
          s2 = s1\<lparr>state := (state s1)\<lparr>timeRemaining :=
                 (if isBreak (state s1) then breakTime (state s1) * 60
                  else workTime (state s1) * 60)\<rparr>\<rparr>
      in if isBreak (state s2) then pomodoro_publish (BREAK_STARTED (getState s2)) s2
         else pomodoro_publish (WORK_STARTED (getState s2)) s2)"

definition handleTimerComplete :: "pomodoro_service \<Rightarrow> pomodoro_service" where
  "handleTimerComplete s =
     (let s1 = (if timerInterval s then s\<lparr>timerInterval := False\<rparr> else s);
          s2 = pomodoro_publish (TIMER_COMPLETED (isBreak (state s1)) (nextMode (isBreak (state s1)))) s1
      in start (enterOtherPhase s2))"

definition handleTimerCompleteWithoutAutoStart :: "pomodoro_service \<Rightarrow> pomodoro_service" where
  "handleTimerCompleteWithoutAutoStart s =
     (let s1 = (if timerInterval s then s\<lparr>timerInterval := False\<rparr> else s)
      in pomodoro_publish (TIMER_COMPLETED (isBreak (state s1)) (nextMode (isBreak (state s1)))) s1)"

definition startNextPhase :: "pomodoro_service \<Rightarrow> pomodoro_service" where
  "startNextPhase s = start (enterOtherPhase s)"

definition tick :: "pomodoro_service \<Rightarrow> pomodoro_service" where
  "tick s =
     (if \<not> isActive (state s) then s
      else let s1 = s\<lparr>state := (state s)\<lparr>timeRemaining := timeRemaining (state s) - 1\<rparr>\<rparr>;
               s2 = pomodoro_publish (TIMER_TICK (getState s1)) s1
           in if timeRemaining (state s2) \<le> 0 then handleTimerComplete s2 else s2)"

text \<open>The scheduler calls \<open>_tick\<close> once a second for as long as an interval is installed.\<close>

definition intervalFires :: "pomodoro_service \<Rightarrow> pomodoro_service" where
  "intervalFires s = (if timerInterval s then tick s else s)"

fun ticks :: "nat \<Rightarrow> pomodoro_service \<Rightarrow> pomodoro_service" where
  "ticks 0 s = s"
| "ticks (Suc n) s = ticks n (intervalFires s)"

datatype pomodoro_call =
    Start | Pause | Reset | Toggle | SetWorkTime int | SetBreakTime int
  | StartNextPhase | IntervalFires | CompleteWithoutAutoStart

fun pomodoro_step :: "pomodoro_call \<Rightarrow> pomodoro_service \<Rightarrow> pomodoro_service" where
  "pomodoro_step Start s = start s"
| "pomodoro_step Pause s = pause s"
| "pomodoro_step Reset s = reset s"
| "pomodoro_step Toggle s = toggle s"
| "pomodoro_step (SetWorkTime m) s = setWorkTime m s"
| "pomodoro_step (SetBreakTime m) s = setBreakTime m s"
| "pomodoro_step StartNextPhase s = startNextPhase s"
| "pomodoro_step IntervalFires s = intervalFires s"
| "pomodoro_step CompleteWithoutAutoStart s = handleTimerCompleteWithoutAutoStart s"

fun pomodoro_run :: "pomodoro_call list \<Rightarrow> pomodoro_service \<Rightarrow> pomodoro_service" where
  "pomodoro_run [] s = s"
| "pomodoro_run (c # cs) s = pomodoro_run cs (pomodoro_step c s)"

text \<open>What a phase-entry event must carry.\<close>

fun phaseEntryOk :: "pomodoro_event \<Rightarrow> bool" where
  "phaseEntryOk (WORK_STARTED st) = (\<not> isBreak st \<and> timeRemaining st = workTime st * 60)"
| "phaseEntryOk (BREAK_STARTED st) = (isBreak st \<and> timeRemaining st = breakTime st * 60)"
| "phaseEntryOk _ = True"

text \<open>The events of a phase change: completion of a phase and entry into one.\<close>

fun isPhaseEvent :: "pomodoro_event \<Rightarrow> bool" where
  "isPhaseEvent (TIMER_COMPLETED _ _) = True"
| "isPhaseEvent (WORK_STARTED _) = True"
| "isPhaseEvent (BREAK_STARTED _) = True"
| "isPhaseEvent _ = False"

fun isTick :: "pomodoro_event \<Rightarrow> bool" where
  "isTick (TIMER_TICK _) = True"
| "isTick _ = False"


text \<open>A service one second before the end of a break, with nothing published yet.\<close>

definition lastSecondOfBreak :: pomodoro_service where
  "lastSecondOfBreak =
     \<lparr>state = \<lparr>isActive = True, isBreak = True, timeRemaining = 1,
                 workTime = 30, breakTime = 5,
                 workProjectId = None, breakProjectId = None, projectTaskMemory = []\<rparr>,
      timerInterval = True,
      stored = \<lparr>cfg_workTime = Some 30, cfg_breakTime = Some 5, cfg_workProjectId = None,
                 cfg_breakProjectId = None, cfg_projectTaskMemory = None\<rparr>,
      published = []\<rparr>"

section \<open>Event bus\<close>

text \<open>
  \<open>EventBus\<close> extends Node's \<open>EventEmitter\<close>; \<open>publish\<close> logs and calls \<open>emit\<close>,
  \<open>subscribe\<close> calls \<open>on\<close>. A listener is a function of the payload that acts on the
  rest of the program (the world \<open>'w\<close>) and either returns or throws. \<open>emit\<close> is the
  library's: it calls the listeners of the event name one after the other, in the order
  they were added, inside no \<open>try\<close>; a listener that throws ends the loop and its
  exception leaves \<open>emit\<close>. An \<open>error\<close> event without a listener is thrown as well.
\<close>

datatype 'w outcome = Returned 'w | Threw string 'w

type_synonym ('d, 'w) listener = "'d \<Rightarrow> 'w \<Rightarrow> 'w outcome"

record ('d, 'w) event_bus =
  listeners :: "string \<Rightarrow> ('d, 'w) listener list"

definition EventBus :: "('d, 'w) event_bus" where
  "EventBus = \<lparr>listeners = (\<lambda>_. [])\<rparr>"

fun callListeners :: "('d, 'w) listener list \<Rightarrow> 'd \<Rightarrow> 'w \<Rightarrow> 'w outcome" where
  "callListeners [] d w = Returned w"
| "callListeners (l # ls) d w =
     (case l d w of
        Threw e w' \<Rightarrow> Threw e w'
      | Returned w' \<Rightarrow> callListeners ls d w')"

definition emit :: "('d, 'w) event_bus \<Rightarrow> string \<Rightarrow> 'd \<Rightarrow> 'w \<Rightarrow> 'w outcome" where
  "emit bus eventName d w =
     (if eventName = ''error'' \<and> listeners bus eventName = [] then Threw ''Unhandled error'' w
      else callListeners (listeners bus eventName) d w)"

definition publish :: "('d, 'w) event_bus \<Rightarrow> string \<Rightarrow> 'd \<Rightarrow> 'w \<Rightarrow> 'w outcome" where
  "publish bus eventName d w = emit bus eventName d w"

definition subscribe ::
  "string \<Rightarrow> ('d, 'w) listener \<Rightarrow> ('d, 'w) event_bus \<Rightarrow> ('d, 'w) event_bus" where
  "subscribe eventName callback bus =
     bus\<lparr>listeners := (listeners bus)(eventName := listeners bus eventName @ [callback])\<rparr>"

text \<open>
  Two listeners to observe a publish with: the world is the list of the subscribers
  invoked so far. \<open>recorder i\<close> notes its invocation and returns, \<open>thrower i\<close> notes
  its invocation and throws.
\<close>

definition recorder :: "nat \<Rightarrow> ('d, nat list) listener" where
  "recorder i = (\<lambda>d w. Returned (w @ [i]))"

definition thrower :: "nat \<Rightarrow> ('d, nat list) listener" where
  "thrower i = (\<lambda>d w. Threw ''handler failed'' (w @ [i]))"

definition threeSubscribers :: "(unit, nat list) event_bus" where
  "threeSubscribers =
     subscribe ''tasks:loaded'' (recorder 3)
       (subscribe ''tasks:loaded'' (thrower 2)
          (subscribe ''tasks:loaded'' (recorder 1) EventBus))"

definition twoSubscribers :: "(unit, nat list) event_bus" where
  "twoSubscribers =
     subscribe ''timer:tick'' (recorder 2) (subscribe ''timer:tick'' (thrower 1) EventBus)"

section \<open>Task source service (TodoistService)\<close>

text \<open>
  The service keeps the task contents and the task ids in two parallel arrays with one
  cursor. A network call is split at its suspension point: the method issues the request,
  and the callback that runs when the response arrives is a step of its own, applied to
  the state of that later moment. Events go to \<open>td_published\<close>; subscribers are taken
  to return and not to call the service from inside a publish.
\<close>

record todoist_settings =
  stored_apiKey :: "string option"
  stored_selectedProjectId :: "string option"
  stored_currentTaskIndex :: "int option"

record current_task =
  content :: "string option"
  id' :: "string option"

text \<open>
  \<open>API_ERROR\<close> carries the message, the code and, where the source adds one, the
  status; the status the source also writes into the message text is left to that field.
\<close>

datatype todoist_event =
    TASKS_LOADED "string list" "string list" int "current_task option"
  | PROJECTS_LOADED "(string \<times> string) list"
  | TASK_COMPLETED string
  | TASK_ADDED string "string option"
  | API_ERROR string string "int option"
  | PROJECT_SELECTED "string option"
  | TODOIST_SETTINGS_CHANGED

record todoist_service =
  tasks :: "string list"
  taskIds :: "string list"
  projects :: "(string \<times> string) list"
  selectedProjectId :: "string option"
  currentTaskIndex :: int
  apiKey :: string
  td_stored :: todoist_settings
  td_published :: "todoist_event list"

text \<open>A task as the remote service returns it.\<close>

record fetched_task =
  task_content :: string
  task_id :: string

text \<open>
  What comes back from a request: a network error, or a status code with a body. For
  \<open>fetchTasks\<close> the body is what \<open>JSON.parse\<close> and the two \<open>map\<close>s make of it:
  \<open>None\<close> when they throw.
\<close>

datatype 'b http_result = NetworkError | Response int 'b

definition todoist_publish :: "todoist_event \<Rightarrow> todoist_service \<Rightarrow> todoist_service" where
  "todoist_publish e s = s\<lparr>td_published := td_published s @ [e]\<rparr>"

text \<open>Array read \<open>xs[i]\<close>: \<open>undefined\<close> outside the array.\<close>

definition js_index :: "'a list \<Rightarrow> int \<Rightarrow> 'a option" where
  "js_index xs i = (if 0 \<le> i \<and> i < int (length xs) then Some (xs ! nat i) else None)"

text \<open>The remainder operator \<open>%\<close>: the sign of the result is the sign of the dividend.\<close>

definition js_rem :: "int \<Rightarrow> int \<Rightarrow> int" where
  "js_rem a b = sgn a * (\<bar>a\<bar> mod \<bar>b\<bar>)"

text \<open>\<open>Array.prototype.indexOf\<close>: the first position of the element, or \<open>-1\<close>.\<close>

fun indexOf :: "'a list \<Rightarrow> 'a \<Rightarrow> int" where
  "indexOf [] x = -1"
| "indexOf (y # ys) x =
     (if y = x then 0 else (let i = indexOf ys x in if i = -1 then -1 else i + 1))"

text \<open>\<open>xs.splice(i, 1)\<close> for an index \<open>i\<close> that is not negative.\<close>

definition splice1 :: "'a list \<Rightarrow> int \<Rightarrow> 'a list" where
  "splice1 xs i = take (nat i) xs @ drop (Suc (nat i)) xs"

definition TodoistService :: "todoist_settings \<Rightarrow> todoist_service" where
  "TodoistService cfg =
     \<lparr>tasks = [], taskIds = [], projects = [],
      selectedProjectId = str_or_null (stored_selectedProjectId cfg),
      currentTaskIndex = num_or (stored_currentTaskIndex cfg) 0,
      apiKey = (case stored_apiKey cfg of None \<Rightarrow> [] | Some k \<Rightarrow> k),
      td_stored = cfg,
      td_published = []\<rparr>"

definition td_saveSettings :: "todoist_service \<Rightarrow> todoist_service" where
  "td_saveSettings s =
     todoist_publish TODOIST_SETTINGS_CHANGED
       (s\<lparr>td_stored := \<lparr>stored_apiKey = Some (apiKey s),
                         stored_selectedProjectId = selectedProjectId s,
                         stored_currentTaskIndex = Some (currentTaskIndex s)\<rparr>\<rparr>)"

definition getCurrentTask :: "todoist_service \<Rightarrow> current_task option" where
  "getCurrentTask s =
     (if length (tasks s) = 0 then None
      else Some \<lparr>content = js_index (tasks s) (currentTaskIndex s),
                 id' = js_index (taskIds s) (currentTaskIndex s)\<rparr>)"

definition tasksLoaded :: "todoist_service \<Rightarrow> todoist_event" where
  "tasksLoaded s = TASKS_LOADED (tasks s) (taskIds s) (currentTaskIndex s) (getCurrentTask s)"

definition nextTask :: "todoist_service \<Rightarrow> current_task option \<times> todoist_service" where
  "nextTask s =
     (if length (tasks s) = 0 then (None, s)
      else let s1 = s\<lparr>currentTaskIndex :=
                        js_rem (currentTaskIndex s + 1) (int (length (tasks s)))\<rparr>;
               s2 = td_saveSettings s1;
               s3 = todoist_publish (tasksLoaded s2) s2
           in (getCurrentTask s3, s3))"

definition setCurrentTaskIndex ::
  "int \<Rightarrow> todoist_service \<Rightarrow> current_task option \<times> todoist_service" where
  "setCurrentTaskIndex index s =
     (if index < 0 \<or> index \<ge> int (length (tasks s)) then (None, s)
      else let s1 = s\<lparr>currentTaskIndex := index\<rparr>;
               s2 = td_saveSettings s1;
               s3 = todoist_publish (tasksLoaded s2) s2
           in (getCurrentTask s3, s3))"

definition hasApiKey :: "todoist_service \<Rightarrow> bool" where
  "hasApiKey s = (length (apiKey s) > 0)"

definition clearApiKey :: "todoist_service \<Rightarrow> todoist_service" where
  "clearApiKey s =
     (let s1 = s\<lparr>apiKey := [], tasks := [], taskIds := [], projects := [],
                 selectedProjectId := None, currentTaskIndex := 0\<rparr>;
          s2 = td_saveSettings s1;
          s3 = todoist_publish (TASKS_LOADED [] [] 0 None) s2
      in todoist_publish (PROJECTS_LOADED []) s3)"

text \<open>
  \<open>fetchTasks()\<close> up to the request: without an API key it publishes the error and
  returns, otherwise the request is on its way (\<open>True\<close>).
\<close>

definition fetchTasks :: "todoist_service \<Rightarrow> bool \<times> todoist_service" where
  "fetchTasks s =
     (if \<not> hasApiKey s then (False, todoist_publish (API_ERROR ''API key missing'' ''NO_API_KEY'' None) s)
      else (True, s))"

definition emptyTasksLoaded :: todoist_event where
  "emptyTasksLoaded = TASKS_LOADED [] [] 0 None"

text \<open>The callbacks of the \<open>fetchTasks\<close> request: \<open>res.on('end')\<close> and \<open>req.on('error')\<close>.\<close>

definition fetchTasksCompleted ::
  "fetched_task list option http_result \<Rightarrow> todoist_service \<Rightarrow> todoist_service" where
  "fetchTasksCompleted res s =
     (case res of
        Response statusCode body \<Rightarrow>
          (if statusCode = 200 then
             (case body of
                Some fetchedTasks \<Rightarrow>
                  (let s1 = s\<lparr>tasks := map task_content fetchedTasks\<rparr>;
                       s2 = s1\<lparr>taskIds := map task_id fetchedTasks\<rparr>;
                       s3 = (if currentTaskIndex s2 \<ge> int (length (tasks s2))
                             then s2\<lparr>currentTaskIndex := 0\<rparr> else s2);
                       s4 = todoist_publish (tasksLoaded s3) s3
                   in td_saveSettings s4)
              | None \<Rightarrow>
                  (let s1 = s\<lparr>tasks := [], taskIds := []\<rparr>;
                       s2 = todoist_publish
                              (API_ERROR ''Failed to parse tasks response'' ''PARSE_ERROR'' None) s1
                   in todoist_publish emptyTasksLoaded s2))
           else
             (let s1 = s\<lparr>tasks := [], taskIds := []\<rparr>;
                  s2 = todoist_publish (API_ERROR ''Failed to fetch tasks'' ''API_ERROR'' (Some statusCode)) s1
              in todoist_publish emptyTasksLoaded s2))
      | NetworkError \<Rightarrow>
          (let s1 = s\<lparr>tasks := [], taskIds := []\<rparr>;
               s2 = todoist_publish
                      (API_ERROR ''Network error fetching tasks'' ''NETWORK_ERROR'' None) s1
           in todoist_publish emptyTasksLoaded s2))"

text \<open>
  \<open>completeTask(taskId)\<close> up to the request. An empty id is falsy: logged, no request.
\<close>

definition completeTask :: "string \<Rightarrow> todoist_service \<Rightarrow> bool \<times> todoist_service" where
  "completeTask taskId s =
     (if \<not> hasApiKey s then (False, todoist_publish (API_ERROR ''API key missing'' ''NO_API_KEY'' None) s)
      else if taskId = [] then (False, s)
      else (True, s))"

text \<open>The callbacks of the \<open>completeTask\<close> request.\<close>

definition completeTaskCompleted ::
  "string \<Rightarrow> unit http_result \<Rightarrow> todoist_service \<Rightarrow> todoist_service" where
  "completeTaskCompleted taskId res s =
     (case res of
        Response statusCode _ \<Rightarrow>
          (if statusCode = 204 then
             (let index = indexOf (taskIds s) taskId
              in if index > -1 then
                   (let s1 = s\<lparr>taskIds := splice1 (taskIds s) index\<rparr>;
                        s2 = s1\<lparr>tasks := splice1 (tasks s1) index\<rparr>;
                        s3 = (if currentTaskIndex s2 \<ge> int (length (tasks s2))
                              then s2\<lparr>currentTaskIndex := 0\<rparr> else s2);
                        s4 = todoist_publish (TASK_COMPLETED taskId) s3;
                        s5 = todoist_publish (tasksLoaded s4) s4
                    in td_saveSettings s5)
                 else s)
           else todoist_publish (API_ERROR ''Failed to complete task'' ''API_ERROR'' (Some statusCode)) s)
      | NetworkError \<Rightarrow>
          todoist_publish (API_ERROR ''Network error completing task'' ''NETWORK_ERROR'' None) s)"

datatype todoist_call =
    NextTask
  | SetCurrentTaskIndex int
  | ClearApiKey
  | FetchTasks
  | FetchTasksCompleted "fetched_task list option http_result"
  | CompleteTask string
  | CompleteTaskCompleted string "unit http_result"

fun todoist_step :: "todoist_call \<Rightarrow> todoist_service \<Rightarrow> todoist_service" where
  "todoist_step NextTask s = snd (nextTask s)"
| "todoist_step (SetCurrentTaskIndex i) s = snd (setCurrentTaskIndex i s)"
| "todoist_step ClearApiKey s = clearApiKey s"
| "todoist_step FetchTasks s = snd (fetchTasks s)"
| "todoist_step (FetchTasksCompleted res) s = fetchTasksCompleted res s"
| "todoist_step (CompleteTask t) s = snd (completeTask t s)"
| "todoist_step (CompleteTaskCompleted t res) s = completeTaskCompleted t res s"

fun todoist_run :: "todoist_call list \<Rightarrow> todoist_service \<Rightarrow> todoist_service" where
  "todoist_run [] s = s"
| "todoist_run (c # cs) s = todoist_run cs (todoist_step c s)"

text \<open>The cursor invariant of the data model.\<close>

definition cursorInRange :: "todoist_service \<Rightarrow> bool" where
  "cursorInRange s =
     (tasks s = [] \<or> (0 \<le> currentTaskIndex s \<and> currentTaskIndex s < int (length (tasks s))))"

definition cursorInv :: "todoist_service \<Rightarrow> bool" where
  "cursorInv s =
     (length (tasks s) = length (taskIds s) \<and> 0 \<le> currentTaskIndex s \<and> cursorInRange s)"

text \<open>A session to run the service on.\<close>

definition storedCursorTwo :: todoist_settings where
  "storedCursorTwo =
     \<lparr>stored_apiKey = Some ''secret'', stored_selectedProjectId = None,
      stored_currentTaskIndex = Some 2\<rparr>"

definition threeTasks :: "fetched_task list" where
  "threeTasks =
     [\<lparr>task_content = ''Write report'', task_id = ''t1''\<rparr>,
      \<lparr>task_content = ''Call Sam'', task_id = ''t2''\<rparr>,
      \<lparr>task_content = ''Water plants'', task_id = ''t3''\<rparr>]"

definition threeTasksSession :: "todoist_call list" where
  "threeTasksSession =
     [FetchTasksCompleted (Response 200 (Some threeTasks)),
      NextTask,
      CompleteTaskCompleted ''t1'' (Response 204 ()),
      CompleteTaskCompleted ''t3'' (Response 204 ())]"

definition threeTasksLoaded :: todoist_service where
  "threeTasksLoaded =
     fetchTasksCompleted (Response 200 (Some threeTasks)) (TodoistService storedCursorTwo)"


section \<open>Theme registry and coordinator (ThemeManager)\<close>

text \<open>
  A theme's main module is plugin code. Of a module the coordinator only tests which
  lifecycle methods it has; what a method does when it is called is not the
  coordinator's: each operation below takes, for every hook it may call, whether that
  call returns or throws, and records the call in \<open>hookLog\<close> (theme name, hook, result)
  in the order the calls are made. \<open>deactivateTheme\<close> and \<open>activateTheme\<close> are
  \<open>async\<close>: they are given first as they run from call to completion with nothing in
  between, and then cut at their \<open>await\<close>s, where another call may run.
\<close>

text \<open>
  A JavaScript value as the settings hold it, and an object as the list of its
  properties; the property \<open>k\<close> of an object \<open>obj\<close> is \<open>map_of obj k\<close>.
\<close>

datatype json = Num int | Str string | Bool bool | Obj "(string \<times> json) list"

type_synonym settings_object = "(string \<times> json) list"


record theme_module =
  has_initialize :: bool
  has_activate :: bool
  has_deactivate :: bool
  has_updateSettings :: bool

text \<open>The \<open>mainModule\<close> field of a configuration: an object, or a truthy value of another type.\<close>

datatype js_module = NotAnObject | Module theme_module

text \<open>A theme configuration as passed to \<open>registerTheme\<close>; an absent field is \<open>None\<close>.\<close>

record theme_config =
  config_name :: "string option"
  config_displayName :: "string option"
  config_description :: "string option"
  config_mainModule :: "js_module option"
  config_rendererPath :: "string option"
  config_settings :: "settings_object option"

text \<open>The descriptor stored in the \<open>themes\<close> map.\<close>

record theme_data =
  name :: string
  displayName :: string
  description :: "string option"
  rendererPath :: "string option"
  mainModule :: theme_module
  settings :: settings_object

datatype hook = Initialize | Activate | Deactivate | UpdateSettings

datatype hook_result = Returns | Throws

type_synonym hook_call = "string \<times> hook \<times> hook_result"

text \<open>
  Modelled from the spec: the settings store behind \<open>settingsService\<close> (the
  \<open>electron-store\<close> package), of which only the theme domain is used here:
  \<open>currentTheme\<close>, and the object \<open>themeSettings\<close>, each property of which is an
  object. The store is written by path: \<open>store.set(path, value)\<close> cuts \<open>path\<close> at
  its dots into property names and walks down from the root, putting an empty object
  wherever the next property is not an object, and assigns \<open>value\<close> to the last
  property. A dot after a backslash does not cut. A path with \<open>__proto__\<close>,
  \<open>prototype\<close> or \<open>constructor\<close> among its property names is refused: nothing is
  written.
\<close>

record theme_store =
  currentTheme :: "string option"
  themeSettings :: "(string \<times> settings_object) list"







datatype renderer_message =
    ThemeChanged string string "string option" "string option" "string \<rightharpoonup> json"
  | ThemeSettingsUpdated string "string \<rightharpoonup> json"

text \<open>\<open>themes\<close> is a JavaScript \<open>Map\<close>: keys in insertion order.\<close>

record theme_manager =
  themes :: "(string \<times> theme_data) list"
  activeTheme :: "theme_data option"
  hookLog :: "hook_call list"
  themeStore :: theme_store
  windowOpen :: bool
  sentToRenderer :: "renderer_message list"

definition ThemeManager :: "theme_store \<Rightarrow> bool \<Rightarrow> theme_manager" where
  "ThemeManager st win =
     \<lparr>themes = [], activeTheme = None, hookLog = [], themeStore = st,
      windowOpen = win, sentToRenderer = []\<rparr>"

definition truthy :: "string option \<Rightarrow> bool" where
  "truthy x = (case x of None \<Rightarrow> False | Some v \<Rightarrow> v \<noteq> [])"

definition hasTheme :: "string \<Rightarrow> theme_manager \<Rightarrow> bool" where
  "hasTheme themeName tm = (map_of (themes tm) themeName \<noteq> None)"

definition callHook :: "string \<Rightarrow> hook \<Rightarrow> hook_result \<Rightarrow> theme_manager \<Rightarrow> theme_manager" where
  "callHook n h r tm = tm\<lparr>hookLog := hookLog tm @ [(n, h, r)]\<rparr>"

text \<open>\<open>_validateThemeConfig\<close>; \<open>None\<close> is a configuration that is null or not an object.\<close>

definition validateThemeConfig :: "theme_config option \<Rightarrow> bool" where
  "validateThemeConfig config =
     (case config of
        None \<Rightarrow> False
      | Some c \<Rightarrow>
          if \<not> truthy (config_name c) then False
          else if \<not> truthy (config_displayName c) then False
          else (case config_mainModule c of
                  None \<Rightarrow> False
                | Some NotAnObject \<Rightarrow> False
                | Some (Module m) \<Rightarrow>
                    if \<not> has_initialize m then False
                    else if \<not> has_activate m then False
                    else if \<not> has_deactivate m then False
                    else True))"

text \<open>
  \<open>registerTheme\<close>. The result has no exception: the one call that may throw, the
  module's \<open>initialize\<close>, is inside the \<open>try\<close>, and its \<open>catch\<close> returns \<open>false\<close>.
\<close>

definition registerTheme ::
  "theme_config option \<Rightarrow> hook_result \<Rightarrow> theme_manager \<Rightarrow> bool \<times> theme_manager" where
  "registerTheme themeConfig initialize_result tm =
     (if \<not> validateThemeConfig themeConfig then (False, tm)
      else case themeConfig of
        None \<Rightarrow> (False, tm)
      | Some c \<Rightarrow>
          (case (config_name c, config_displayName c, config_mainModule c) of
             (Some n, Some dn, Some (Module theme)) \<Rightarrow>
               if hasTheme n tm then (False, tm)
               else
                 (let tm1 = callHook n Initialize initialize_result tm
                  in case initialize_result of
                       Throws \<Rightarrow> (False, tm1)
                     | Returns \<Rightarrow>
                         (True, tm1\<lparr>themes := themes tm1 @
                            [(n, \<lparr>name = n, displayName = dn,
                                  description = config_description c,
                                  rendererPath = config_rendererPath c,
                                  mainModule = theme,
                                  settings = (case config_settings c of
                                                None \<Rightarrow> [] | Some d \<Rightarrow> d)\<rparr>)]\<rparr>))
           | _ \<Rightarrow> (False, tm)))"

text \<open>
  \<open>getThemeSettings\<close> reads the saved settings by property name,
  \<open>themeSettings?.[theme.name]\<close>, and spreads them over the theme's defaults; the
  result is given by what each of its properties is.
\<close>

definition getThemeSettings :: "string option \<Rightarrow> theme_manager \<Rightarrow> (string \<rightharpoonup> json)" where
  "getThemeSettings themeName tm =
     (let theme = (case themeName of
                     None \<Rightarrow> activeTheme tm
                   | Some n \<Rightarrow> if n \<noteq> [] then map_of (themes tm) n else activeTheme tm)
      in case theme of
           None \<Rightarrow> Map.empty
         | Some t \<Rightarrow>
             (let savedSettings = (case map_of (themeSettings (themeStore tm)) (name t) of
                                     None \<Rightarrow> [] | Some sv \<Rightarrow> sv)
              in map_of (settings t) ++ map_of savedSettings))"

definition sendToRenderer :: "renderer_message \<Rightarrow> theme_manager \<Rightarrow> theme_manager" where
  "sendToRenderer msg tm =
     (if windowOpen tm then tm\<lparr>sentToRenderer := sentToRenderer tm @ [msg]\<rparr> else tm)"

definition notifyRendererThemeChanged :: "theme_manager \<Rightarrow> theme_manager" where
  "notifyRendererThemeChanged tm =
     (case activeTheme tm of
        None \<Rightarrow> tm
      | Some t \<Rightarrow>
          sendToRenderer
            (ThemeChanged (name t) (displayName t) (description t) (rendererPath t)
               (getThemeSettings (Some (name t)) tm)) tm)"

text \<open>
  The store writes of \<open>settingsService\<close>. Each is followed there by publishes on the
  event bus, which run the subscribers; whether those publishes return is a parameter
  (\<open>save_result\<close>) of the operation that saves.
\<close>

definition saveCurrentTheme :: "string \<Rightarrow> theme_manager \<Rightarrow> theme_manager" where
  "saveCurrentTheme themeName tm =
     tm\<lparr>themeStore := (themeStore tm)\<lparr>currentTheme := Some themeName\<rparr>\<rparr>"


definition deactivateTheme :: "hook_result \<Rightarrow> theme_manager \<Rightarrow> bool \<times> theme_manager" where
  "deactivateTheme deactivate_result tm =
     (case activeTheme tm of
        None \<Rightarrow> (True, tm)
      | Some t \<Rightarrow>
          (let tm1 = callHook (name t) Deactivate deactivate_result tm
           in case deactivate_result of
                Throws \<Rightarrow> (False, tm1)
              | Returns \<Rightarrow> (True, tm1\<lparr>activeTheme := None\<rparr>)))"

text \<open>
  The state \<open>activateTheme\<close> is in when it enters its \<open>try\<close>: the active theme, if
  there is one, has been through \<open>deactivateTheme\<close>, whose result is not looked at.
\<close>

definition deactivateCurrent :: "hook_result \<Rightarrow> theme_manager \<Rightarrow> theme_manager" where
  "deactivateCurrent deactivate_result tm =
     (if activeTheme tm \<noteq> None then snd (deactivateTheme deactivate_result tm) else tm)"

definition activateTheme ::
  "string \<Rightarrow> hook_result \<Rightarrow> hook_result \<Rightarrow> hook_result \<Rightarrow> theme_manager
     \<Rightarrow> bool \<times> theme_manager" where
  "activateTheme themeName deactivate_result activate_result save_result tm =
     (if \<not> hasTheme themeName tm then (False, tm)
      else case map_of (themes tm) themeName of
        None \<Rightarrow> (False, tm)
      | Some themeData \<Rightarrow>
          (let tm1 = deactivateCurrent deactivate_result tm;
               tm2 = callHook (name themeData) Activate activate_result tm1
           in case activate_result of
                Throws \<Rightarrow> (False, tm2)
              | Returns \<Rightarrow>
                  (let tm3 = tm2\<lparr>activeTheme := Some themeData\<rparr>;
                       tm4 = saveCurrentTheme themeName tm3
                   in case save_result of
                        Throws \<Rightarrow> (False, tm4)
                      | Returns \<Rightarrow> (True, notifyRendererThemeChanged tm4))))"


text \<open>
  The same two methods cut at their \<open>await\<close>s. A call of \<open>activateTheme\<close> runs
  up to its first \<open>await\<close> and is then pending: on the \<open>deactivate\<close> of the theme
  that was active when the call tested \<open>this.activeTheme\<close>, or, when none was, on the
  target's \<open>activate\<close>. A hook is called, and logged, when the call reaches it; its
  result is seen when the call is resumed. Between the parts of one call the parts of
  another may run.
\<close>

datatype activation =
    AwaitDeactivate string theme_data hook_result
  | AwaitActivate string theme_data hook_result
  | Finished bool

text \<open>
  \<open>deactivateTheme\<close> after its \<open>await\<close>: reading \<open>this.activeTheme.name\<close> throws
  when the pointer has been cleared in the meantime, and the \<open>catch\<close> returns \<open>false\<close>.
\<close>

definition deactivateTheme_resume ::
  "hook_result \<Rightarrow> theme_manager \<Rightarrow> bool \<times> theme_manager" where
  "deactivateTheme_resume deactivate_result tm =
     (case deactivate_result of
        Throws \<Rightarrow> (False, tm)
      | Returns \<Rightarrow>
          (case activeTheme tm of
             None \<Rightarrow> (False, tm)
           | Some t \<Rightarrow> (True, tm\<lparr>activeTheme := None\<rparr>)))"

definition activateTheme_begin ::
  "string \<Rightarrow> hook_result \<Rightarrow> hook_result \<Rightarrow> theme_manager
     \<Rightarrow> activation \<times> theme_manager" where
  "activateTheme_begin themeName deactivate_result activate_result tm =
     (if \<not> hasTheme themeName tm then (Finished False, tm)
      else case map_of (themes tm) themeName of
        None \<Rightarrow> (Finished False, tm)
      | Some themeData \<Rightarrow>
          (case activeTheme tm of
             Some t \<Rightarrow>
               (AwaitDeactivate themeName themeData deactivate_result,
                callHook (name t) Deactivate deactivate_result tm)
           | None \<Rightarrow>
               (AwaitActivate themeName themeData activate_result,
                callHook (name themeData) Activate activate_result tm)))"

definition activateTheme_resume ::
  "activation \<Rightarrow> hook_result \<Rightarrow> hook_result \<Rightarrow> theme_manager
     \<Rightarrow> activation \<times> theme_manager" where
  "activateTheme_resume pending activate_result save_result tm =
     (case pending of
        AwaitDeactivate themeName themeData deactivate_result \<Rightarrow>
          (let tm1 = snd (deactivateTheme_resume deactivate_result tm)
           in (AwaitActivate themeName themeData activate_result,
               callHook (name themeData) Activate activate_result tm1))
      | AwaitActivate themeName themeData r \<Rightarrow>
          (case r of
             Throws \<Rightarrow> (Finished False, tm)
           | Returns \<Rightarrow>
               (let tm3 = tm\<lparr>activeTheme := Some themeData\<rparr>;
                    tm4 = saveCurrentTheme themeName tm3
                in case save_result of
                     Throws \<Rightarrow> (Finished False, tm4)
                   | Returns \<Rightarrow> (Finished True, notifyRendererThemeChanged tm4)))
      | Finished b \<Rightarrow> (Finished b, tm))"

text \<open>A call run through all its parts with no other call in between.\<close>

definition activateTheme_alone ::
  "string \<Rightarrow> hook_result \<Rightarrow> hook_result \<Rightarrow> hook_result \<Rightarrow> theme_manager
     \<Rightarrow> activation \<times> theme_manager" where
  "activateTheme_alone themeName deactivate_result activate_result save_result tm =
     (let (p1, tm1) = activateTheme_begin themeName deactivate_result activate_result tm;
          (p2, tm2) = activateTheme_resume p1 activate_result save_result tm1
      in activateTheme_resume p2 activate_result save_result tm2)"

text \<open>Two themes to run the coordinator on.\<close>

definition lifecycleModule :: theme_module where
  "lifecycleModule =
     \<lparr>has_initialize = True, has_activate = True, has_deactivate = True,
      has_updateSettings = True\<rparr>"

definition defaultConfig :: theme_config where
  "defaultConfig =
     \<lparr>config_name = Some ''default'', config_displayName = Some ''Minimal'',
      config_description = Some ''Default minimal task overlay theme'',
      config_mainModule = Some (Module lifecycleModule),
      config_rendererPath = Some ''./themes/default.js'',
      config_settings = Some [(''globalTransparency'', Num 100)]\<rparr>"

definition farmingConfig :: theme_config where
  "farmingConfig =
     \<lparr>config_name = Some ''farming'', config_displayName = Some ''Farming'',
      config_description = None,
      config_mainModule = Some (Module lifecycleModule),
      config_rendererPath = None,
      config_settings = None\<rparr>"

text \<open>The descriptors \<open>registerTheme\<close> stores for them.\<close>

definition defaultData :: theme_data where
  "defaultData =
     \<lparr>name = ''default'', displayName = ''Minimal'',
      description = Some ''Default minimal task overlay theme'',
      rendererPath = Some ''./themes/default.js'',
      mainModule = lifecycleModule,
      settings = [(''globalTransparency'', Num 100)]\<rparr>"

definition farmingData :: theme_data where
  "farmingData =
     \<lparr>name = ''farming'', displayName = ''Farming'', description = None,
      rendererPath = None, mainModule = lifecycleModule, settings = []\<rparr>"

definition emptyStore :: theme_store where
  "emptyStore = \<lparr>currentTheme = None, themeSettings = []\<rparr>"

definition twoThemes :: theme_manager where
  "twoThemes =
     snd (registerTheme (Some farmingConfig) Returns
       (snd (registerTheme (Some defaultConfig) Returns
          (ThemeManager emptyStore True))))"


definition defaultActive :: theme_manager where
  "defaultActive = snd (activateTheme ''default'' Returns Returns Returns twoThemes)"

text \<open>A configuration without a display name, and one whose module lacks \<open>deactivate\<close>.\<close>

definition namelessConfig :: theme_config where
  "namelessConfig = defaultConfig\<lparr>config_displayName := None\<rparr>"

definition noDeactivateConfig :: theme_config where
  "noDeactivateConfig =
     farmingConfig\<lparr>config_mainModule :=
       Some (Module (lifecycleModule\<lparr>has_deactivate := False\<rparr>))\<rparr>"

definition oneTheme :: theme_manager where
  "oneTheme = snd (registerTheme (Some defaultConfig) Returns (ThemeManager emptyStore True))"

text \<open>
  \<open>activateTheme('farming')\<close> called while \<open>activateTheme('default')\<close> is pending on
  its first \<open>await\<close>, no theme being active and no hook throwing: the part of each
  call up to the \<open>await\<close>, then the rest of each.
\<close>

definition overlappingActivations :: "(activation \<times> activation) \<times> theme_manager" where
  "overlappingActivations =
     (let (p1, tm1) = activateTheme_begin ''default'' Returns Returns twoThemes;
          (p2, tm2) = activateTheme_begin ''farming'' Returns Returns tm1;
          (r1, tm3) = activateTheme_resume p1 Returns Returns tm2;
          (r2, tm4) = activateTheme_resume p2 Returns Returns tm3
      in ((r1, r2), tm4))"




section \<open>Properties of the interval timer\<close>

lemmas pomodoro_defs =
  pomodoro_publish_def getState_def start_def pause_def reset_def toggle_def
  setWorkTime_def setBreakTime_def saveSettings_def enterOtherPhase_def
  handleTimerComplete_def handleTimerCompleteWithoutAutoStart_def startNextPhase_def
  tick_def intervalFires_def

text \<open>
  C5. After \<open>reset()\<close>, from any state of the service, the countdown is the work
  minutes times 60, the timer is not active and not in a break. The work minutes are
  those before the call, and no interval is left installed.
\<close>

theorem reset_postcondition:
  "timeRemaining (state (reset s)) = workTime (state (reset s)) * 60
   \<and> isActive (state (reset s)) = False
   \<and> isBreak (state (reset s)) = False
   \<and> workTime (state (reset s)) = workTime (state s)
   \<and> timerInterval (reset s) = False"
  by (simp add: reset_def pomodoro_publish_def Let_def)

lemma phaseEntryOk_step:
  "list_all phaseEntryOk (published s) \<Longrightarrow>
   list_all phaseEntryOk (published (pomodoro_step c s))"
  by (cases c) (auto simp: pomodoro_defs Let_def)

lemma phaseEntryOk_run:
  "list_all phaseEntryOk (published s) \<Longrightarrow>
   list_all phaseEntryOk (published (pomodoro_run cs s))"
  by (induction cs arbitrary: s) (auto simp: phaseEntryOk_step)

text \<open>The tick that brings the countdown to zero publishes three events.\<close>

lemma tick_completes:
  assumes "isActive (state s)" and "timeRemaining (state s) \<le> 1"
  shows "published (tick s) = published s @
           [TIMER_TICK ((state s)\<lparr>timeRemaining := timeRemaining (state s) - 1\<rparr>),
            TIMER_COMPLETED (isBreak (state s)) (nextMode (isBreak (state s))),
            (if isBreak (state s)
             then WORK_STARTED
                    ((state s)\<lparr>isBreak := False, timeRemaining := workTime (state s) * 60\<rparr>)
             else BREAK_STARTED
                    ((state s)\<lparr>isBreak := True, timeRemaining := breakTime (state s) * 60\<rparr>))]"
  using assms by (auto simp: pomodoro_defs Let_def)

lemma ticks_add: "ticks (m + n) s = ticks n (ticks m s)"
  by (induction m arbitrary: s) auto

text \<open>While more seconds remain than ticks arrive, a tick only counts down.\<close>

lemma ticks_running:
  "isActive (state s) \<Longrightarrow> timerInterval s \<Longrightarrow> int k < timeRemaining (state s) \<Longrightarrow>
   state (ticks k s) = (state s)\<lparr>timeRemaining := timeRemaining (state s) - int k\<rparr>
   \<and> timerInterval (ticks k s)
   \<and> filter isPhaseEvent (published (ticks k s)) = filter isPhaseEvent (published s)
   \<and> length (filter isTick (published (ticks k s))) = length (filter isTick (published s)) + k"
proof (induction k arbitrary: s)
  case 0
  then show ?case by simp
next
  case (Suc k)
  let ?s1 = "intervalFires s"
  have st: "state ?s1 = (state s)\<lparr>timeRemaining := timeRemaining (state s) - 1\<rparr>"
    and ti: "timerInterval ?s1"
    and pb: "filter isPhaseEvent (published ?s1) = filter isPhaseEvent (published s)"
    and tk: "length (filter isTick (published ?s1)) = length (filter isTick (published s)) + 1"
    using Suc.prems by (auto simp: pomodoro_defs Let_def)
  have "isActive (state ?s1)" and "int k < timeRemaining (state ?s1)"
    using Suc.prems st by auto
  from Suc.IH[OF this(1) ti this(2)] st pb tk show ?case by simp
qed

lemma scenario_start:
  "let s = start (setWorkTime 25 (PomodoroService cfg))
   in isActive (state s) \<and> \<not> isBreak (state s) \<and> timerInterval s
      \<and> timeRemaining (state s) = 1500
      \<and> breakTime (state s) = num_or (cfg_breakTime cfg) 5
      \<and> filter isPhaseEvent (published s) = [] \<and> filter isTick (published s) = []"
  by (simp add: pomodoro_defs PomodoroService_def loadSettings_def Let_def)

lemma scenario_1500_ticks:
  "let r = ticks 1500 (start (setWorkTime 25 (PomodoroService cfg)))
   in filter isPhaseEvent (published r)
        = [TIMER_COMPLETED False ''break'', BREAK_STARTED (state r)]
      \<and> length (filter isTick (published r)) = 1500
      \<and> isBreak (state r)
      \<and> timeRemaining (state r) = breakTime (state r) * 60
      \<and> breakTime (state r) = num_or (cfg_breakTime cfg) 5"
proof -
  define s where "s = start (setWorkTime 25 (PomodoroService cfg))"
  define s1 where "s1 = ticks 1499 s"
  have s: "isActive (state s)" "\<not> isBreak (state s)" "timerInterval s"
    "timeRemaining (state s) = 1500"
    "breakTime (state s) = num_or (cfg_breakTime cfg) 5"
    "filter isPhaseEvent (published s) = []" "filter isTick (published s) = []"
    using scenario_start[of cfg] by (simp_all add: s_def Let_def)
  have "int 1499 < timeRemaining (state s)" using s(4) by simp
  from ticks_running[OF s(1) s(3) this]
  have s1: "state s1 = (state s)\<lparr>timeRemaining := 1\<rparr>" "timerInterval s1"
    "filter isPhaseEvent (published s1) = []" "length (filter isTick (published s1)) = 1499"
    using s by (simp_all add: s1_def)
  have last_tick: "ticks 1500 s = intervalFires s1"
    using ticks_add[of 1499 1 s] by (simp add: s1_def)
  have a1: "isActive (state s1)" "timeRemaining (state s1) \<le> 1" "\<not> isBreak (state s1)"
    using s1(1) s by simp_all
  have pub: "published (intervalFires s1) = published s1 @
      [TIMER_TICK ((state s1)\<lparr>timeRemaining := timeRemaining (state s1) - 1\<rparr>),
       TIMER_COMPLETED False ''break'',
       BREAK_STARTED ((state s1)\<lparr>isBreak := True, timeRemaining := breakTime (state s1) * 60\<rparr>)]"
    using tick_completes[OF a1(1,2)] a1(3) s1(2) by (simp add: intervalFires_def nextMode_def)
  have fin: "state (intervalFires s1)
      = (state s1)\<lparr>isBreak := True, timeRemaining := breakTime (state s1) * 60\<rparr>"
    using a1 s1(2) by (simp add: pomodoro_defs Let_def)
  show ?thesis
    unfolding s_def[symmetric] Let_def last_tick
    using pub fin s1 s by simp
qed

text \<open>
  C6. Every \<open>work-started\<close> and \<open>break-started\<close> event the service publishes, in any
  sequence of calls and interval firings, carries the phase entered and a countdown of
  that phase's minutes times 60. The tick that completes a phase publishes the tick,
  then \<open>timer-completed\<close> with the phase left and the next mode, then the entry event
  of the other phase with that countdown. From a newly constructed service,
  \<open>setWorkTime(25)\<close>, \<open>start()\<close> and 1500 firings of the interval publish 1500 ticks
  and, of the phase events, exactly \<open>timer-completed{wasBreak: false, nextMode: break}\<close>
  followed by \<open>break-started\<close> with a countdown of the break minutes times 60.
\<close>

theorem phase_entry_after_completion:
  "list_all phaseEntryOk (published (pomodoro_run cs (s\<lparr>published := []\<rparr>)))
   \<and> (isActive (state s) \<and> timeRemaining (state s) \<le> 1 \<longrightarrow>
        published (tick s) = published s @
          [TIMER_TICK ((state s)\<lparr>timeRemaining := timeRemaining (state s) - 1\<rparr>),
           TIMER_COMPLETED (isBreak (state s)) (nextMode (isBreak (state s))),
           (if isBreak (state s)
            then WORK_STARTED
                   ((state s)\<lparr>isBreak := False, timeRemaining := workTime (state s) * 60\<rparr>)
            else BREAK_STARTED
                   ((state s)\<lparr>isBreak := True, timeRemaining := breakTime (state s) * 60\<rparr>))])
   \<and> (let r = ticks 1500 (start (setWorkTime 25 (PomodoroService cfg)))
      in filter isPhaseEvent (published r)
           = [TIMER_COMPLETED False ''break'', BREAK_STARTED (state r)]
         \<and> length (filter isTick (published r)) = 1500
         \<and> isBreak (state r)
         \<and> timeRemaining (state r) = breakTime (state r) * 60
         \<and> breakTime (state r) = num_or (cfg_breakTime cfg) 5)"
proof (intro conjI impI)
  show "list_all phaseEntryOk (published (pomodoro_run cs (s\<lparr>published := []\<rparr>)))"
    by (rule phaseEntryOk_run) simp
next
  assume "isActive (state s) \<and> timeRemaining (state s) \<le> 1"
  then show "published (tick s) = published s @
          [TIMER_TICK ((state s)\<lparr>timeRemaining := timeRemaining (state s) - 1\<rparr>),
           TIMER_COMPLETED (isBreak (state s)) (nextMode (isBreak (state s))),
           (if isBreak (state s)
            then WORK_STARTED
                   ((state s)\<lparr>isBreak := False, timeRemaining := workTime (state s) * 60\<rparr>)
            else BREAK_STARTED
                   ((state s)\<lparr>isBreak := True, timeRemaining := breakTime (state s) * 60\<rparr>))]"
    using tick_completes[of s] by blast
next
  show "let r = ticks 1500 (start (setWorkTime 25 (PomodoroService cfg)))
      in filter isPhaseEvent (published r)
           = [TIMER_COMPLETED False ''break'', BREAK_STARTED (state r)]
         \<and> length (filter isTick (published r)) = 1500
         \<and> isBreak (state r)
         \<and> timeRemaining (state r) = breakTime (state r) * 60
         \<and> breakTime (state r) = num_or (cfg_breakTime cfg) 5"
    by (rule scenario_1500_ticks)
qed

text \<open>
  The theorem at a service in its last second of a break, run through a pause, a
  change of the work minutes and a manual phase change.
\<close>

theorem phase_entry_after_completion_witness:
  "isActive (state lastSecondOfBreak) \<and> timeRemaining (state lastSecondOfBreak) \<le> 1
   \<and> published (tick lastSecondOfBreak) =
       [TIMER_TICK ((state lastSecondOfBreak)\<lparr>timeRemaining := 0\<rparr>),
        TIMER_COMPLETED True ''work'',
        WORK_STARTED ((state lastSecondOfBreak)\<lparr>isBreak := False, timeRemaining := 1800\<rparr>)]
   \<and> list_all phaseEntryOk
        (published (pomodoro_run [Pause, SetWorkTime 10, StartNextPhase, IntervalFires]
           lastSecondOfBreak))"
  using phase_entry_after_completion
    [of "[Pause, SetWorkTime 10, StartNextPhase, IntervalFires]" lastSecondOfBreak
        "\<lparr>cfg_workTime = None, cfg_breakTime = None, cfg_workProjectId = None,
          cfg_breakProjectId = None, cfg_projectTaskMemory = None\<rparr>"]
  by (simp add: lastSecondOfBreak_def nextMode_def)

section \<open>Properties of the event bus\<close>

lemma callListeners_append:
  "callListeners (pre @ post) d w =
     (case callListeners pre d w of
        Threw e w' \<Rightarrow> Threw e w'
      | Returned w' \<Rightarrow> callListeners post d w')"
  by (induction pre arbitrary: w) (auto split: outcome.splits)

text \<open>
  C4, as the code has it. When the subscribers before a subscriber \<open>l\<close> return and
  \<open>l\<close> throws, \<open>publish\<close> ends with the exception of \<open>l\<close>, in the world \<open>l\<close> left: the
  exception leaves the publish call, and the subscribers after \<open>l\<close> do not run, whatever
  they are.
\<close>

theorem publish_stops_at_throw:
  assumes "listeners bus eventName = pre @ l # post"
      and "callListeners pre d w = Returned w1"
      and "l d w1 = Threw e w2"
  shows "publish bus eventName d w = Threw e w2"
  using assms by (simp add: publish_def emit_def callListeners_append)

text \<open>The theorem at a bus whose first of two subscribers throws.\<close>

theorem publish_stops_at_throw_witness:
  "listeners twoSubscribers ''timer:tick'' = [] @ thrower 1 # [recorder 2]
   \<and> callListeners [] () [] = Returned ([] :: nat list)
   \<and> thrower 1 () [] = Threw ''handler failed'' [1]
   \<and> publish twoSubscribers ''timer:tick'' () [] = Threw ''handler failed'' [1]"
proof -
  have h1: "listeners twoSubscribers ''timer:tick'' = [] @ thrower 1 # [recorder 2]"
    by (simp add: twoSubscribers_def subscribe_def EventBus_def)
  have h2: "callListeners [] () [] = Returned ([] :: nat list)"
    by simp
  have h3: "thrower 1 () [] = Threw ''handler failed'' [1]"
    by (simp add: thrower_def)
  from publish_stops_at_throw[OF h1 h2 h3] h1 h2 h3 show ?thesis by simp
qed

text \<open>
  Three subscribers of one event, the second of which throws: the publish ends with
  the exception, and the world holds the invocations of the first and the second
  subscriber only. The third subscriber was not invoked.
\<close>

theorem publish_isolation_counterexample:
  "publish threeSubscribers ''tasks:loaded'' () [] = Threw ''handler failed'' [1, 2]"
  by (simp add: threeSubscribers_def publish_def emit_def subscribe_def EventBus_def
      recorder_def thrower_def)

section \<open>Properties of the task source service\<close>

lemmas todoist_defs =
  todoist_publish_def td_saveSettings_def tasksLoaded_def emptyTasksLoaded_def

lemma indexOf_notin: "t \<notin> set xs \<Longrightarrow> indexOf xs t = -1"
  by (induction xs) (auto simp: Let_def)

lemma indexOf_range: "-1 \<le> indexOf xs t \<and> indexOf xs t < int (length xs)"
  by (induction xs) (auto simp: Let_def)

lemma js_rem_nonneg: "0 \<le> a \<Longrightarrow> 0 < b \<Longrightarrow> js_rem a b = a mod b"
  by (simp add: js_rem_def sgn_if)

lemma length_splice1:
  "0 \<le> i \<Longrightarrow> i < int (length xs) \<Longrightarrow> length (splice1 xs i) = length xs - 1"
  by (auto simp: splice1_def)

lemma splice1_Nil:
  "0 \<le> i \<Longrightarrow> i < int (length xs) \<Longrightarrow> (splice1 xs i = []) = (length xs \<le> 1)"
  using length_splice1[of i xs] length_0_conv[of "splice1 xs i"] by auto

text \<open>
  The invariant the steps keep: the two arrays have one length, and the cursor is not
  negative and, when there are tasks, below their number.
\<close>

lemma cursorInv_nextTask: "cursorInv s \<Longrightarrow> cursorInv (snd (nextTask s))"
  by (auto simp: cursorInv_def cursorInRange_def nextTask_def todoist_defs Let_def
      js_rem_nonneg)

lemma cursorInv_fetchTasksCompleted: "cursorInv s \<Longrightarrow> cursorInv (fetchTasksCompleted res s)"
  by (auto simp: cursorInv_def cursorInRange_def fetchTasksCompleted_def todoist_defs Let_def
      split: http_result.splits option.splits)

lemma cursorInv_completeTaskCompleted:
  assumes "cursorInv s"
  shows "cursorInv (completeTaskCompleted t res s)"
proof -
  have "-1 \<le> indexOf (taskIds s) t \<and> indexOf (taskIds s) t < int (length (taskIds s))"
    by (rule indexOf_range)
  with assms show ?thesis
    by (auto simp: cursorInv_def cursorInRange_def completeTaskCompleted_def todoist_defs
        Let_def length_splice1 splice1_Nil split: http_result.splits)
qed

lemma cursorInv_step: "cursorInv s \<Longrightarrow> cursorInv (todoist_step c s)"
proof (cases c)
  case NextTask
  assume "cursorInv s"
  then show ?thesis using NextTask cursorInv_nextTask by simp
next
  case (SetCurrentTaskIndex i)
  assume "cursorInv s"
  then show ?thesis using SetCurrentTaskIndex
    by (auto simp: cursorInv_def cursorInRange_def setCurrentTaskIndex_def todoist_defs Let_def)
next
  case ClearApiKey
  assume "cursorInv s"
  then show ?thesis using ClearApiKey
    by (auto simp: cursorInv_def cursorInRange_def clearApiKey_def todoist_defs Let_def)
next
  case FetchTasks
  assume "cursorInv s"
  then show ?thesis using FetchTasks
    by (auto simp: cursorInv_def cursorInRange_def fetchTasks_def todoist_defs)
next
  case (FetchTasksCompleted res)
  assume "cursorInv s"
  then show ?thesis using FetchTasksCompleted cursorInv_fetchTasksCompleted by simp
next
  case (CompleteTask t)
  assume "cursorInv s"
  then show ?thesis using CompleteTask
    by (auto simp: cursorInv_def cursorInRange_def completeTask_def todoist_defs)
next
  case (CompleteTaskCompleted t res)
  assume "cursorInv s"
  then show ?thesis using CompleteTaskCompleted cursorInv_completeTaskCompleted by simp
qed

lemma cursorInv_run: "cursorInv s \<Longrightarrow> cursorInv (todoist_run cs s)"
  by (induction cs arbitrary: s) (auto simp: cursorInv_step)

text \<open>
  C8. A service constructed from stored settings whose cursor is absent or not
  negative, after any sequence of \<open>nextTask\<close>, \<open>setCurrentTaskIndex\<close>, \<open>clearApiKey\<close>,
  \<open>fetchTasks\<close> and \<open>completeTask\<close> calls and of their responses arriving: whenever
  the task list is not empty, \<open>0 \<le> currentTaskIndex < length\<close>; and the task list and
  the id list have the same length.
\<close>

theorem cursor_stays_in_range:
  assumes "case stored_currentTaskIndex cfg of None \<Rightarrow> True | Some i \<Rightarrow> 0 \<le> i"
  shows "(tasks (todoist_run cs (TodoistService cfg)) \<noteq> [] \<longrightarrow>
            0 \<le> currentTaskIndex (todoist_run cs (TodoistService cfg))
            \<and> currentTaskIndex (todoist_run cs (TodoistService cfg))
                < int (length (tasks (todoist_run cs (TodoistService cfg)))))
         \<and> length (tasks (todoist_run cs (TodoistService cfg)))
             = length (taskIds (todoist_run cs (TodoistService cfg)))"
proof -
  have "cursorInv (TodoistService cfg)"
    using assms
    by (auto simp: cursorInv_def cursorInRange_def TodoistService_def num_or_def
        split: option.splits)
  then have "cursorInv (todoist_run cs (TodoistService cfg))"
    by (rule cursorInv_run)
  then show ?thesis
    by (auto simp: cursorInv_def cursorInRange_def)
qed

text \<open>
  The theorem at a service that starts with a stored cursor of 2, loads three tasks,
  moves on (the cursor wraps to 0), completes the first task and then the third.
\<close>

theorem cursor_stays_in_range_witness:
  "(case stored_currentTaskIndex storedCursorTwo of None \<Rightarrow> True | Some i \<Rightarrow> 0 \<le> i)
   \<and> tasks (todoist_run threeTasksSession (TodoistService storedCursorTwo)) = [''Call Sam'']
   \<and> taskIds (todoist_run threeTasksSession (TodoistService storedCursorTwo)) = [''t2'']
   \<and> currentTaskIndex (todoist_run threeTasksSession (TodoistService storedCursorTwo)) = 0
   \<and> currentTaskIndex (todoist_run threeTasksSession (TodoistService storedCursorTwo))
       < int (length (tasks (todoist_run threeTasksSession (TodoistService storedCursorTwo))))"
proof -
  have h: "case stored_currentTaskIndex storedCursorTwo of None \<Rightarrow> True | Some i \<Rightarrow> 0 \<le> i"
    by (simp add: storedCursorTwo_def)
  have t: "tasks (todoist_run threeTasksSession (TodoistService storedCursorTwo)) = [''Call Sam'']"
    by code_simp
  have i: "taskIds (todoist_run threeTasksSession (TodoistService storedCursorTwo)) = [''t2'']"
    by code_simp
  have c: "currentTaskIndex (todoist_run threeTasksSession (TodoistService storedCursorTwo)) = 0"
    by code_simp
  from cursor_stays_in_range[OF h, of threeTasksSession] h t i c show ?thesis
    by simp
qed

text \<open>
  C10. When the response with status 204 arrives for \<open>completeTask(t)\<close> and \<open>t\<close> is
  not in the id list, the callback leaves the service as it is: the task list, the id
  list and the cursor are unchanged, and neither \<open>task-completed\<close> nor \<open>tasks-loaded\<close>
  nor any other event is published. The call itself, which issued the request, changed
  nothing either.
\<close>

theorem completeTask_unknown_id:
  assumes "taskId \<notin> set (taskIds s)"
  shows "completeTaskCompleted taskId (Response 204 ()) s = s
         \<and> td_published (completeTaskCompleted taskId (Response 204 ()) s) = td_published s
         \<and> (hasApiKey s \<and> taskId \<noteq> [] \<longrightarrow> completeTask taskId s = (True, s))"
  using assms by (simp add: completeTaskCompleted_def completeTask_def indexOf_notin)

text \<open>The theorem at a service holding three tasks, for an id that is not among them.\<close>

theorem completeTask_unknown_id_witness:
  "''t9'' \<notin> set (taskIds threeTasksLoaded)
   \<and> hasApiKey threeTasksLoaded \<and> ''t9'' \<noteq> []
   \<and> completeTask ''t9'' threeTasksLoaded = (True, threeTasksLoaded)
   \<and> completeTaskCompleted ''t9'' (Response 204 ()) threeTasksLoaded = threeTasksLoaded"
proof -
  have ids: "taskIds threeTasksLoaded = [''t1'', ''t2'', ''t3'']"
    by code_simp
  have key: "hasApiKey threeTasksLoaded"
    by code_simp
  have notin: "''t9'' \<notin> set (taskIds threeTasksLoaded)"
    by (simp add: ids)
  from completeTask_unknown_id[OF notin] key notin show ?thesis
    by simp
qed

section \<open>Properties of the theme registry and coordinator\<close>

lemmas register_defs =
  registerTheme_def validateThemeConfig_def truthy_def hasTheme_def callHook_def
  ThemeManager_def defaultConfig_def farmingConfig_def

lemmas lifecycle_defs =
  activateTheme_def deactivateCurrent_def deactivateTheme_def hasTheme_def callHook_def
  saveCurrentTheme_def notifyRendererThemeChanged_def sendToRenderer_def

lemma lifecycleModule_has:
  "has_initialize lifecycleModule" "has_activate lifecycleModule"
  "has_deactivate lifecycleModule" "has_updateSettings lifecycleModule"
  by (simp_all add: lifecycleModule_def)

lemma oneTheme_eq:
  "oneTheme =
     \<lparr>themes = [(''default'', defaultData)], activeTheme = None,
      hookLog = [(''default'', Initialize, Returns)],
      themeStore = emptyStore, windowOpen = True, sentToRenderer = []\<rparr>"
  by (simp add: oneTheme_def register_defs defaultData_def lifecycleModule_has Let_def)

lemma twoThemes_eq:
  "twoThemes =
     \<lparr>themes = [(''default'', defaultData), (''farming'', farmingData)],
      activeTheme = None,
      hookLog = [(''default'', Initialize, Returns), (''farming'', Initialize, Returns)],
      themeStore = emptyStore, windowOpen = True, sentToRenderer = []\<rparr>"
  by (simp add: twoThemes_def register_defs defaultData_def farmingData_def
      lifecycleModule_has Let_def)

lemma defaultActive_fields:
  "themes defaultActive = [(''default'', defaultData), (''farming'', farmingData)]"
  "activeTheme defaultActive = Some defaultData"
  "hookLog defaultActive =
     [(''default'', Initialize, Returns), (''farming'', Initialize, Returns),
      (''default'', Activate, Returns)]"
  by (simp_all add: defaultActive_def twoThemes_eq lifecycle_defs getThemeSettings_def
      defaultData_def Let_def)

lemma theme_names: "name defaultData = ''default''" "name farmingData = ''farming''"
  by (simp_all add: defaultData_def farmingData_def)


text \<open>The parts of a call, run with nothing in between, are the call.\<close>

lemma activateTheme_alone_eq:
  "activateTheme_alone n d a sv tm
     = (Finished (fst (activateTheme n d a sv tm)), snd (activateTheme n d a sv tm))"
  by (cases d; cases a; cases sv)
     (auto simp: activateTheme_alone_def activateTheme_begin_def activateTheme_resume_def
        deactivateTheme_resume_def lifecycle_defs Let_def split: option.splits)

text \<open>
  C1, as the code has it. Both names registered, neither theme's \<open>activate\<close>
  throwing, and the second call made when the first has completed, with no other call
  between its parts. The first call ends with the pointer at \<open>a\<close>, \<open>a\<close>'s \<open>activate\<close>
  being its last hook call. The second call, up to its first \<open>await\<close>, invokes \<open>a\<close>'s
  \<open>deactivate\<close>, the pointer still at \<open>a\<close>; resumed, it clears the pointer (or leaves
  it at \<open>a\<close>, when that \<open>deactivate\<close> threw) and invokes \<open>b\<close>'s \<open>activate\<close>; resumed
  again, it sets the pointer to \<open>b\<close> and calls no hook. So the hooks called are
  \<open>a\<close>'s \<open>activate\<close>, \<open>a\<close>'s \<open>deactivate\<close> once, \<open>b\<close>'s \<open>activate\<close>, in this
  order, and at each of these instants the pointer is at one theme at most, at \<open>b\<close>
  only after \<open>a\<close> has been through \<open>deactivate\<close>.
\<close>

theorem activate_then_activate:
  assumes "map_of (themes tm) a = Some A" and "map_of (themes tm) b = Some B"
  shows "let tm1 = snd (activateTheme a d1 Returns s1 tm);
             (p1, i1) = activateTheme_begin b d2 Returns tm1;
             (p2, i2) = activateTheme_resume p1 Returns s2 i1;
             (p3, i3) = activateTheme_resume p2 Returns s2 i2
         in activeTheme tm1 = Some A
            \<and> hookLog tm1 = hookLog tm
                 @ (case activeTheme tm of None \<Rightarrow> [] | Some c \<Rightarrow> [(name c, Deactivate, d1)])
                 @ [(name A, Activate, Returns)]
            \<and> p1 = AwaitDeactivate b B d2
            \<and> activeTheme i1 = Some A
            \<and> hookLog i1 = hookLog tm1 @ [(name A, Deactivate, d2)]
            \<and> p2 = AwaitActivate b B Returns
            \<and> activeTheme i2 = (if d2 = Returns then None else Some A)
            \<and> hookLog i2 = hookLog tm1 @ [(name A, Deactivate, d2), (name B, Activate, Returns)]
            \<and> activeTheme i3 = Some B
            \<and> hookLog i3 = hookLog i2
            \<and> i3 = snd (activateTheme b d2 Returns s2 tm1)
            \<and> p3 = Finished (fst (activateTheme b d2 Returns s2 tm1))"
  using assms
  by (cases d1; cases d2; cases s1; cases s2)
     (auto simp: activateTheme_begin_def activateTheme_resume_def deactivateTheme_resume_def
        lifecycle_defs Let_def split: option.splits)

text \<open>The theorem at \<open>default\<close> then \<open>farming\<close>, with \<open>default\<close>'s \<open>deactivate\<close> throwing.\<close>

theorem activate_then_activate_witness:
  "map_of (themes twoThemes) ''default'' = Some defaultData
   \<and> map_of (themes twoThemes) ''farming'' = Some farmingData
   \<and> activeTheme (snd (activateTheme ''default'' Returns Returns Returns twoThemes))
       = Some defaultData
   \<and> activeTheme
        (snd (activateTheme ''farming'' Throws Returns Returns
           (snd (activateTheme ''default'' Returns Returns Returns twoThemes))))
       = Some farmingData
   \<and> hookLog
        (snd (activateTheme ''farming'' Throws Returns Returns
           (snd (activateTheme ''default'' Returns Returns Returns twoThemes))))
       = hookLog twoThemes
         @ [(''default'', Activate, Returns), (''default'', Deactivate, Throws),
            (''farming'', Activate, Returns)]"
proof -
  have a: "map_of (themes twoThemes) ''default'' = Some defaultData"
    by (simp add: twoThemes_eq)
  have b: "map_of (themes twoThemes) ''farming'' = Some farmingData"
    by (simp add: twoThemes_eq)
  have n: "activeTheme twoThemes = None"
    by (simp add: twoThemes_eq)
  from activate_then_activate[OF a b, of Returns Returns Throws Returns] a b n
  show ?thesis
    by (simp add: Let_def theme_names split: prod.splits)
qed

text \<open>
  Two ways in which two calls do not do what the claim says. \<open>farming\<close>'s
  \<open>activate\<close> throws in the second call: after the call no theme is Active. And the
  second call is made while the first is pending on its first \<open>await\<close>: both calls
  report success, both themes have been activated, and \<open>default\<close>'s \<open>deactivate\<close> was
  never invoked.
\<close>

theorem activate_then_activate_counterexample:
  "hasTheme ''default'' twoThemes \<and> hasTheme ''farming'' twoThemes
   \<and> activeTheme
        (snd (activateTheme ''farming'' Returns Throws Returns
           (snd (activateTheme ''default'' Returns Returns Returns twoThemes))))
       = None
   \<and> fst overlappingActivations = (Finished True, Finished True)
   \<and> hookLog (snd overlappingActivations)
       = hookLog twoThemes
         @ [(''default'', Activate, Returns), (''farming'', Activate, Returns)]
   \<and> activeTheme (snd overlappingActivations) = Some farmingData"
  by (simp add: overlappingActivations_def activateTheme_begin_def activateTheme_resume_def
      twoThemes_eq lifecycle_defs getThemeSettings_def theme_names Let_def)

text \<open>
  C2, as the code has it. \<open>deactivate()\<close> returns success and changes nothing when no
  theme is Active. Otherwise it calls the active theme's \<open>deactivate\<close>; when that
  returns, the pointer is cleared and success is reported; when it throws, failure is
  reported and the pointer is left at that theme.
\<close>

theorem deactivateTheme_outcomes:
  "(activeTheme tm = None \<longrightarrow> deactivateTheme r tm = (True, tm))
   \<and> (\<forall>t. activeTheme tm = Some t \<longrightarrow>
        hookLog (snd (deactivateTheme r tm)) = hookLog tm @ [(name t, Deactivate, r)]
        \<and> (r = Returns \<longrightarrow> fst (deactivateTheme r tm) = True
                         \<and> activeTheme (snd (deactivateTheme r tm)) = None)
        \<and> (r = Throws \<longrightarrow> fst (deactivateTheme r tm) = False
                         \<and> activeTheme (snd (deactivateTheme r tm)) = Some t))"
  by (cases r) (auto simp: deactivateTheme_def callHook_def Let_def)

text \<open>The theorem with no theme active, and with \<open>default\<close> active for both results.\<close>

theorem deactivateTheme_outcomes_witness:
  "activeTheme twoThemes = None
   \<and> deactivateTheme Throws twoThemes = (True, twoThemes)
   \<and> activeTheme defaultActive = Some defaultData
   \<and> fst (deactivateTheme Returns defaultActive) = True
   \<and> activeTheme (snd (deactivateTheme Returns defaultActive)) = None
   \<and> hookLog (snd (deactivateTheme Returns defaultActive))
       = hookLog defaultActive @ [(''default'', Deactivate, Returns)]
   \<and> fst (deactivateTheme Throws defaultActive) = False
   \<and> activeTheme (snd (deactivateTheme Throws defaultActive)) = Some defaultData"
proof -
  have n: "activeTheme twoThemes = None"
    by (simp add: twoThemes_eq)
  have d: "activeTheme defaultActive = Some defaultData"
    by (rule defaultActive_fields)
  from deactivateTheme_outcomes[of twoThemes Throws]
       deactivateTheme_outcomes[of defaultActive Returns]
       deactivateTheme_outcomes[of defaultActive Throws] n d
  show ?thesis
    by (simp add: theme_names)
qed

text \<open>
  \<open>default\<close> is Active and its \<open>deactivate\<close> throws: failure is reported and the
  pointer still points at \<open>default\<close>.
\<close>

theorem deactivateTheme_counterexample:
  "fst (deactivateTheme Throws defaultActive) = False
   \<and> activeTheme (snd (deactivateTheme Throws defaultActive)) = Some defaultData"
  by (simp add: deactivateTheme_def callHook_def defaultActive_fields Let_def)

text \<open>
  C3, as the code has it. When \<open>activate(n)\<close> fails because the target's \<open>activate\<close>
  throws, failure is reported and the call has not set the pointer: the pointer is
  what the deactivation of the previous theme left, null when that theme's
  \<open>deactivate\<close> returned or no theme was active, the previous theme when its
  \<open>deactivate\<close> threw. So it equals its value before the call when no theme was
  active or the previous theme's \<open>deactivate\<close> threw.
\<close>

theorem activateTheme_target_throws:
  assumes "hasTheme n tm"
  shows "fst (activateTheme n d Throws sv tm) = False
   \<and> activeTheme (snd (activateTheme n d Throws sv tm))
       = (if d = Throws then activeTheme tm else None)
   \<and> (activeTheme tm = None \<or> d = Throws \<longrightarrow>
        activeTheme (snd (activateTheme n d Throws sv tm)) = activeTheme tm)"
  using assms
  by (cases d) (auto simp: lifecycle_defs Let_def split: option.splits)

text \<open>The theorem at \<open>farming\<close> failing to activate while \<open>default\<close> is Active.\<close>

theorem activateTheme_target_throws_witness:
  "hasTheme ''farming'' defaultActive
   \<and> fst (activateTheme ''farming'' Throws Throws Returns defaultActive) = False
   \<and> activeTheme (snd (activateTheme ''farming'' Throws Throws Returns defaultActive))
       = Some defaultData
   \<and> fst (activateTheme ''farming'' Returns Throws Returns defaultActive) = False
   \<and> activeTheme (snd (activateTheme ''farming'' Returns Throws Returns defaultActive))
       = None"
proof -
  have h: "hasTheme ''farming'' defaultActive"
    by (simp add: hasTheme_def defaultActive_fields)
  from activateTheme_target_throws[OF h, of Throws Returns]
       activateTheme_target_throws[OF h, of Returns Returns] h
  show ?thesis
    by (simp add: defaultActive_fields)
qed

text \<open>
  \<open>default\<close> is Active, its \<open>deactivate\<close> returns and \<open>farming\<close>'s \<open>activate\<close>
  throws: the pointer was at \<open>default\<close> before the call and is null after it.
\<close>

theorem activateTheme_restore_counterexample:
  "activeTheme defaultActive = Some defaultData
   \<and> fst (activateTheme ''farming'' Returns Throws Returns defaultActive) = False
   \<and> activeTheme (snd (activateTheme ''farming'' Returns Throws Returns defaultActive))
       = None"
  by (simp add: lifecycle_defs defaultActive_fields Let_def)


lemma registerTheme_success:
  assumes "registerTheme (Some c) r tm = (True, tm1)"
  shows "\<exists>n t. config_name c = Some n \<and> n \<noteq> [] \<and> \<not> hasTheme n tm \<and> name t = n
           \<and> themes tm1 = themes tm @ [(n, t)]"
  using assms
  by (auto simp: registerTheme_def validateThemeConfig_def truthy_def callHook_def Let_def
      split: if_splits option.splits js_module.splits hook_result.splits)

text \<open>
  C7. \<open>register(d)\<close> returns \<open>false\<close> and leaves the coordinator as it was (no hook
  is called) when \<open>d\<close> is null or not an object, when its name or its display name is
  missing or empty, when its implementation is missing, is not an object or lacks one
  of \<open>initialize\<close>, \<open>activate\<close>, \<open>deactivate\<close>, and when its name is already
  registered. After a registration that succeeded, registering the same descriptor
  again returns \<open>false\<close>, changes nothing, and the registry holds exactly one
  descriptor under that name. The operation has no exceptional result.
\<close>

theorem registerTheme_rejects:
  "(config = None \<longrightarrow> registerTheme config r tm = (False, tm))
   \<and> (\<forall>c. config = Some c
          \<and> (\<not> truthy (config_name c) \<or> \<not> truthy (config_displayName c)
             \<or> (\<forall>m. config_mainModule c = Some (Module m) \<longrightarrow>
                   \<not> has_initialize m \<or> \<not> has_activate m \<or> \<not> has_deactivate m))
          \<longrightarrow> registerTheme config r tm = (False, tm))
   \<and> (\<forall>c n. config = Some c \<and> config_name c = Some n \<and> hasTheme n tm \<longrightarrow>
         registerTheme config r tm = (False, tm))
   \<and> (\<forall>c n tm1. config = Some c \<and> config_name c = Some n
          \<and> registerTheme config r tm = (True, tm1) \<longrightarrow>
         registerTheme config r' tm1 = (False, tm1)
         \<and> length (filter (\<lambda>e. fst e = n) (themes tm1)) = 1)"
proof (intro conjI allI impI)
  assume "config = None"
  then show "registerTheme config r tm = (False, tm)"
    by (simp add: registerTheme_def validateThemeConfig_def)
next
  fix c
  assume h: "config = Some c
          \<and> (\<not> truthy (config_name c) \<or> \<not> truthy (config_displayName c)
             \<or> (\<forall>m. config_mainModule c = Some (Module m) \<longrightarrow>
                   \<not> has_initialize m \<or> \<not> has_activate m \<or> \<not> has_deactivate m))"
  then have "\<not> validateThemeConfig config"
    by (auto simp: validateThemeConfig_def split: option.splits js_module.splits)
  then show "registerTheme config r tm = (False, tm)"
    by (simp add: registerTheme_def)
next
  fix c n
  assume "config = Some c \<and> config_name c = Some n \<and> hasTheme n tm"
  then show "registerTheme config r tm = (False, tm)"
    by (auto simp: registerTheme_def split: option.splits js_module.splits)
next
  fix c n tm1
  assume h: "config = Some c \<and> config_name c = Some n
               \<and> registerTheme config r tm = (True, tm1)"
  then obtain t where t: "\<not> hasTheme n tm" "themes tm1 = themes tm @ [(n, t)]"
    using registerTheme_success[of c r tm tm1] by auto
  then have has1: "hasTheme n tm1"
    by (auto simp: hasTheme_def)
  show "registerTheme config r' tm1 = (False, tm1)"
    using h has1 by (auto simp: registerTheme_def split: option.splits js_module.splits)
  have "filter (\<lambda>e. fst e = n) (themes tm) = []"
    using t(1) by (auto simp: hasTheme_def filter_empty_conv map_of_eq_None_iff image_iff)
  then show "length (filter (\<lambda>e. fst e = n) (themes tm1)) = 1"
    using t(2) by simp
qed

text \<open>
  The theorem at a null configuration, at one without a display name, at one whose
  module lacks \<open>deactivate\<close>, at a name that is registered, and at \<open>farming\<close>
  registered twice.
\<close>

theorem registerTheme_rejects_witness:
  "registerTheme None Returns oneTheme = (False, oneTheme)
   \<and> \<not> truthy (config_displayName namelessConfig)
   \<and> registerTheme (Some namelessConfig) Returns oneTheme = (False, oneTheme)
   \<and> config_mainModule noDeactivateConfig
       = Some (Module (lifecycleModule\<lparr>has_deactivate := False\<rparr>))
   \<and> registerTheme (Some noDeactivateConfig) Returns oneTheme = (False, oneTheme)
   \<and> hasTheme ''default'' oneTheme
   \<and> registerTheme (Some defaultConfig) Returns oneTheme = (False, oneTheme)
   \<and> registerTheme (Some farmingConfig) Returns oneTheme = (True, twoThemes)
   \<and> registerTheme (Some farmingConfig) Returns twoThemes = (False, twoThemes)
   \<and> length (filter (\<lambda>e. fst e = ''farming'') (themes twoThemes)) = 1"
proof -
  have nd: "\<not> truthy (config_displayName namelessConfig)"
    by (simp add: namelessConfig_def truthy_def)
  have nm: "config_mainModule noDeactivateConfig
              = Some (Module (lifecycleModule\<lparr>has_deactivate := False\<rparr>))"
    by (simp add: noDeactivateConfig_def)
  have hd: "hasTheme ''default'' oneTheme"
    by (simp add: hasTheme_def oneTheme_eq)
  have dn: "config_name defaultConfig = Some ''default''"
    by (simp add: defaultConfig_def)
  have fn: "config_name farmingConfig = Some ''farming''"
    by (simp add: farmingConfig_def)
  have reg: "registerTheme (Some farmingConfig) Returns oneTheme = (True, twoThemes)"
    by (simp add: twoThemes_def oneTheme_def register_defs lifecycleModule_has Let_def)
  from registerTheme_rejects[of None Returns oneTheme]
       registerTheme_rejects[of "Some namelessConfig" Returns oneTheme]
       registerTheme_rejects[of "Some noDeactivateConfig" Returns oneTheme]
       registerTheme_rejects[of "Some defaultConfig" Returns oneTheme]
       registerTheme_rejects[of "Some farmingConfig" Returns oneTheme Returns]
       nd nm hd dn fn reg
  show ?thesis
    by simp
qed







end
